theory Spec2Isabelle
  imports Main "HOL-Library.AList"
begin

section \<open>automx2 generators: the Apple mobileconfig builder\<close>

text \<open>
  A shallow embedding of \<^verbatim>\<open>automx2/generators/__init__.py\<close> and
  \<^verbatim>\<open>automx2/generators/apple.py\<close>. Exceptions are values of the type \<open>error\<close>,
  a function that can raise returns \<open>error + 'a\<close> with \<open>Inl\<close> the exception.
  Python dictionaries keep insertion order, so a dictionary is an association list;
  assignment to a key is \<open>AList.update\<close> (replace in place, or append a new key).
\<close>

subsection \<open>Exceptions\<close>

datatype error =
    DomainNotFound string
  | NoProviderForDomain string
  | NoServersForDomain string
  | InvalidServerType string
  | InvalidAuthenticationType string
  | LdapLookupError string
  | TypeError string
  | AttributeError string
  | ValueError string
  | IndexError string
  | KeyError string

subsection \<open>The persisted model and the directory client, as the generators read them\<close>

record Provider =
  provider_name :: string

record Server =
  server_type :: string
  server_name :: string
  server_port :: int
  user_name :: string
  authentication :: string
  socket_type :: string

record Ldapserver =
  ldap_name :: string
  ldap_port :: int
  use_ssl :: bool
  bind_user :: string
  bind_password :: string
  search_base :: string
  search_filter :: string
  attr_cn :: string
  attr_uid :: string

record Domain =
  domain_name :: string
  provider :: "Provider option"
  servers :: "Server list"
  ldapserver :: "Ldapserver option"

text \<open>
  Modelled from the spec: the status constants of \<^verbatim>\<open>automx2.ldap\<close>
  (\<^verbatim>\<open>STATUS_ERROR\<close>, \<^verbatim>\<open>STATUS_NO_MATCH\<close> and the success status), which the
  generators import. The spec gives the status tag three values, "ok", "no-match"
  and "error".
\<close>

datatype lookup_status = STATUS_OK | STATUS_NO_MATCH | STATUS_ERROR

text \<open>
  Modelled from the spec: \<^verbatim>\<open>LookupResult\<close> of \<^verbatim>\<open>automx2.ldap\<close>, a status tag plus
  an optional common name and an optional uid.
\<close>

record LookupResult =
  status :: lookup_status
  cn :: "string option"
  uid :: "string option"

text \<open>The arguments of the \<^verbatim>\<open>LdapAccess\<close> constructor.\<close>

record LdapAccess =
  la_hostname :: string
  la_port :: int
  la_use_ssl :: bool
  la_user :: string
  la_password :: string

text \<open>
  What the generators use and do not define: the rows of the \<^verbatim>\<open>Domain\<close> table, the
  directory client's \<^verbatim>\<open>lookup\<close>, Python's \<^verbatim>\<open>str.format\<close> with one positional
  argument (it raises on a malformed template), \<^verbatim>\<open>expand_placeholders\<close> and
  \<^verbatim>\<open>unique\<close> of \<^verbatim>\<open>automx2.util\<close> (the values of its two calls in
  \<^verbatim>\<open>_payload\<close>), and the constant \<^verbatim>\<open>IDENTIFIER\<close>. They are parameters of the model.
\<close>

record env =
  domains :: "Domain list"
  lookup :: "LdapAccess \<Rightarrow> string \<Rightarrow> string \<Rightarrow> string \<Rightarrow> string \<Rightarrow> LookupResult"
  format :: "string \<Rightarrow> string \<Rightarrow> error + string"
  expand_placeholders :: "string \<Rightarrow> string \<Rightarrow> string \<Rightarrow> string"
  unique1 :: string
  unique2 :: string
  IDENTIFIER :: string

subsection \<open>\<^verbatim>\<open>generators/__init__.py\<close>\<close>

definition branded_id :: "env \<Rightarrow> string \<Rightarrow> string" where
  "branded_id e ident = IDENTIFIER e @ ''-'' @ ident"

definition ldap_lookup :: "env \<Rightarrow> string \<Rightarrow> Ldapserver \<Rightarrow> error + LookupResult" where
  "ldap_lookup e email_address server =
     (let ldap = \<lparr>la_hostname = ldap_name server, la_port = ldap_port server,
                  la_use_ssl = use_ssl server, la_user = bind_user server,
                  la_password = bind_password server\<rparr>
      in case format e (search_filter server) email_address of
           Inl err \<Rightarrow> Inl err
         | Inr filter_str \<Rightarrow>
             (let r = lookup e ldap (search_base server) filter_str (attr_cn server) (attr_uid server)
              in if status r = STATUS_ERROR then Inl (LdapLookupError ''LDAP bind failed'')
                 else Inr r))"

subsection \<open>Python values and elements of the markup\<close>

text \<open>
  The values a payload dictionary holds. \<open>PDict\<close> lists the items in insertion order.
\<close>

datatype pyval =
    PNone
  | PBool bool
  | PInt int
  | PStr string
  | PDict "(string \<times> pyval) list"
  | PList "pyval list"

text \<open>
  \<^verbatim>\<open>isinstance\<close>: in Python \<^verbatim>\<open>bool\<close> is a subclass of \<^verbatim>\<open>int\<close>, so a boolean is
  an instance of both.
\<close>

fun isinstance_bool :: "pyval \<Rightarrow> bool" where
  "isinstance_bool (PBool _) = True"
| "isinstance_bool _ = False"

fun isinstance_int :: "pyval \<Rightarrow> bool" where
  "isinstance_int (PInt _) = True"
| "isinstance_int (PBool _) = True"
| "isinstance_int _ = False"

fun isinstance_dict :: "pyval \<Rightarrow> bool" where
  "isinstance_dict (PDict _) = True"
| "isinstance_dict _ = False"

fun isinstance_list :: "pyval \<Rightarrow> bool" where
  "isinstance_list (PList _) = True"
| "isinstance_list _ = False"

text \<open>Reading a value at the type its branch has established.\<close>

fun truth :: "pyval \<Rightarrow> bool" where
  "truth (PBool b) = b"
| "truth PNone = False"
| "truth (PInt i) = (i \<noteq> 0)"
| "truth (PStr s) = (s \<noteq> [])"
| "truth (PDict kvs) = (kvs \<noteq> [])"
| "truth (PList vs) = (vs \<noteq> [])"

fun int_value :: "pyval \<Rightarrow> int" where
  "int_value (PInt i) = i"
| "int_value (PBool b) = (if b then 1 else 0)"
| "int_value _ = 0"

fun items :: "pyval \<Rightarrow> (string \<times> pyval) list" where
  "items (PDict kvs) = kvs"
| "items _ = []"

fun elements :: "pyval \<Rightarrow> pyval list" where
  "elements (PList vs) = vs"
| "elements _ = []"

fun text_value :: "pyval \<Rightarrow> string option" where
  "text_value (PStr s) = Some s"
| "text_value _ = None"

text \<open>\<^verbatim>\<open>str\<close> of an integer: its decimal digits, with a sign when negative.\<close>

fun str_nat :: "nat \<Rightarrow> string" where
  "str_nat n =
     (if n < 10 then [''0123456789'' ! n]
      else str_nat (n div 10) @ [''0123456789'' ! (n mod 10)])"

declare str_nat.simps [simp del]

definition str_int :: "int \<Rightarrow> string" where
  "str_int i = (if i < 0 then CHR ''-'' # str_nat (nat (- i)) else str_nat (nat i))"

text \<open>
  An \<^verbatim>\<open>xml.etree.ElementTree.Element\<close>: tag, attributes, text and children.
  \<^verbatim>\<open>SubElement(parent, tag)\<close> appends a new child to the parent; the model appends
  the child once its text and children are set.
\<close>

datatype element =
  Element (tag: string) (attrib: "(string \<times> string) list") (etext: "string option")
    (children: "element list")

definition SubElement :: "element \<Rightarrow> element \<Rightarrow> element" where
  "SubElement parent child =
     Element (tag parent) (attrib parent) (etext parent) (children parent @ [child])"

definition bool_element :: "element \<Rightarrow> string \<Rightarrow> bool \<Rightarrow> element" where
  "bool_element parent key value =
     (let parent = SubElement parent (Element ''key'' [] (Some key) []);
          v = (if value then ''true'' else ''false'')
      in SubElement parent (Element v [] None []))"

definition int_element :: "element \<Rightarrow> string \<Rightarrow> int \<Rightarrow> element" where
  "int_element parent key value =
     (let parent = SubElement parent (Element ''key'' [] (Some key) [])
      in SubElement parent (Element ''integer'' [] (Some (str_int value)) []))"

definition str_element :: "element \<Rightarrow> string \<Rightarrow> string option \<Rightarrow> element" where
  "str_element parent key value =
     (let parent = SubElement parent (Element ''key'' [] (Some key) [])
      in SubElement parent (Element ''string'' [] value []))"

lemma size_item_less:
  "(k, v) \<in> set kvs \<Longrightarrow> size v < Suc (size_list (size_prod (\<lambda>_. 0) size) kvs)"
  by (induction kvs) auto

lemma size_element_less: "v \<in> set vs \<Longrightarrow> size v < Suc (size_list size vs)"
  by (induction vs) auto

text \<open>
  \<^verbatim>\<open>_subtree\<close>, with the source's order of \<^verbatim>\<open>isinstance\<close> tests. Each
  \<^verbatim>\<open>for\<close> statement is a fold, over the items or over the list; the container
  element is appended to the parent with the children the loop gave it.
\<close>

function subtree :: "element \<Rightarrow> string \<Rightarrow> pyval \<Rightarrow> element" where
  "subtree parent key value =
     (if isinstance_bool value then bool_element parent key (truth value)
      else if isinstance_dict value then
        SubElement parent
          (fold (\<lambda>kv p. subtree p (fst kv) (snd kv)) (items value) (Element ''dict'' [] None []))
      else if isinstance_int value then int_element parent key (int_value value)
      else if isinstance_list value then
        (let parent = SubElement parent (Element ''key'' [] (Some key) [])
         in SubElement parent
              (fold (\<lambda>v p. subtree p ''dunno'' v) (elements value) (Element ''array'' [] None [])))
      else str_element parent key (text_value value))"
  by pat_completeness auto

termination
proof (relation "measure (\<lambda>(parent, key, value). size value)", goal_cases)
  case 1
  show ?case by simp
next
  case (2 parent key val kv p)
  then show ?case
    by (cases val; cases kv) (auto dest: size_item_less)
next
  case (3 parent key val parent' v p)
  then show ?case
    by (cases val) (auto dest: size_element_less)
qed

declare subtree.simps [simp del]

subsection \<open>\<^verbatim>\<open>generators/apple.py\<close>: the payload\<close>

definition AUTH_MAP :: "(string \<times> string) list" where
  "AUTH_MAP =
     [(''none'', ''EmailAuthNone''),
      (''NTLM'', ''EmailAuthNTLM''),
      (''plain'', ''EmailAuthPassword'')]"

definition TYPE_DIRECTION_MAP :: "(string \<times> string) list" where
  "TYPE_DIRECTION_MAP =
     [(''imap'', ''Incoming''),
      (''smtp'', ''Outgoing'')]"

type_synonym dict = "(string \<times> pyval) list"

text \<open>
  \<^verbatim>\<open>_payload\<close> returns the two dictionaries \<^verbatim>\<open>inner\<close> and \<^verbatim>\<open>outer\<close>. The list
  under \<^verbatim>\<open>PayloadContent\<close> holds a reference to the inner dictionary, not a copy:
  what \<^verbatim>\<open>client_config\<close> stores in \<^verbatim>\<open>inner\<close> afterwards is seen through
  \<^verbatim>\<open>outer\<close>. So the model returns the inner dictionary and the outer one as a
  function of the contents the inner one has when the outer one is read.
\<close>

definition payload :: "env \<Rightarrow> string \<Rightarrow> string \<Rightarrow> dict \<times> (dict \<Rightarrow> dict)" where
  "payload e local domain =
     (let address = local @ ''@'' @ domain;
          uuid = unique1 e;
          inner =
            [(''EmailAccountDescription'', PStr address),
             (''EmailAccountName'', PNone),
             (''EmailAccountType'', PStr ''EmailTypeIMAP''),
             (''EmailAddress'', PStr address),
             (''IncomingMailServerAuthentication'', PStr ''EmailAuthPassword''),
             (''IncomingMailServerHostName'', PNone),
             (''IncomingMailServerPortNumber'', PInt (- 1)),
             (''IncomingMailServerUseSSL'', PNone),
             (''IncomingMailServerUsername'', PNone),
             (''OutgoingMailServerAuthentication'', PStr ''EmailAuthPassword''),
             (''OutgoingMailServerHostName'', PNone),
             (''OutgoingMailServerPortNumber'', PInt (- 1)),
             (''OutgoingMailServerUseSSL'', PNone),
             (''OutgoingMailServerUsername'', PNone),
             (''OutgoingPasswordSameAsIncomingPassword'', PBool True),
             (''PayloadDescription'', PStr (''Email account configuration for '' @ address)),
             (''PayloadDisplayName'', PStr domain),
             (''PayloadIdentifier'', PStr (''com.apple.mail.managed.'' @ uuid)),
             (''PayloadType'', PStr ''com.apple.mail.managed''),
             (''PayloadUUID'', PStr uuid),
             (''PayloadVersion'', PInt 1),
             (''SMIMEEnablePerMessageSwitch'', PBool False),
             (''SMIMEEnabled'', PBool False),
             (''SMIMEEncryptionEnabled'', PBool False),
             (''SMIMESigningEnabled'', PBool False),
             (''allowMailDrop'', PBool False),
             (''disableMailRecentsSyncing'', PBool False)];
          uuid = unique2 e;
          outer = (\<lambda>inner.
            [(''PayloadContent'', PList [PDict inner]),
             (''PayloadDisplayName'', PStr (''Mail account '' @ domain)),
             (''PayloadIdentifier'', PStr (branded_id e uuid)),
             (''PayloadRemovalDisallowed'', PBool False),
             (''PayloadType'', PStr ''Configuration''),
             (''PayloadUUID'', PStr uuid),
             (''PayloadVersion'', PInt 1)])
      in (inner, outer))"

text \<open>
  \<^verbatim>\<open>_sanitise\<close> changes the dictionary in place; the model returns the dictionary it
  leaves. The keys of a dictionary are unique, so \<^verbatim>\<open>data[key] = new\<close> replaces the
  value of the item being visited. A value that is not a dictionary has no
  \<^verbatim>\<open>items\<close>: the call raises \<^verbatim>\<open>AttributeError\<close>.
\<close>

fun type_name :: "pyval \<Rightarrow> string" where
  "type_name PNone = ''NoneType''"
| "type_name (PBool _) = ''bool''"
| "type_name (PInt _) = ''int''"
| "type_name (PStr _) = ''str''"
| "type_name (PDict _) = ''dict''"
| "type_name (PList _) = ''list''"

definition no_items :: "pyval \<Rightarrow> error" where
  "no_items v =
     AttributeError
       ([CHR 0x27] @ type_name v @ [CHR 0x27] @ '' object has no attribute ''
          @ [CHR 0x27] @ ''items'' @ [CHR 0x27])"

definition missing_value :: "string \<Rightarrow> error" where
  \<open>missing_value key = TypeError (''Missing value for payload key "'' @ key @ ''"'')\<close>

fun sanitise :: "env \<Rightarrow> pyval \<Rightarrow> string \<Rightarrow> string \<Rightarrow> error + pyval"
  and sanitise_items :: "env \<Rightarrow> dict \<Rightarrow> string \<Rightarrow> string \<Rightarrow> error + dict"
  and sanitise_list :: "env \<Rightarrow> pyval list \<Rightarrow> string \<Rightarrow> string \<Rightarrow> error + pyval list"
where
  "sanitise e (PDict kvs) local domain =
     (case sanitise_items e kvs local domain of
        Inl err \<Rightarrow> Inl err
      | Inr kvs' \<Rightarrow> Inr (PDict kvs'))"
| "sanitise e PNone local domain = Inl (no_items PNone)"
| "sanitise e (PBool b) local domain = Inl (no_items (PBool b))"
| "sanitise e (PInt i) local domain = Inl (no_items (PInt i))"
| "sanitise e (PStr s) local domain = Inl (no_items (PStr s))"
| "sanitise e (PList vs) local domain = Inl (no_items (PList vs))"
| "sanitise_items e [] local domain = Inr []"
| "sanitise_items e ((key, val) # rest) local domain =
     (case
        (case val of
           PNone \<Rightarrow> Inl (missing_value key)
         | PList vs \<Rightarrow>
             (case sanitise_list e vs local domain of
                Inl err \<Rightarrow> Inl err
              | Inr vs' \<Rightarrow> Inr (PList vs'))
         | PDict d \<Rightarrow> sanitise e (PDict d) local domain
         | PStr s \<Rightarrow> Inr (PStr (expand_placeholders e s local domain))
         | PBool b \<Rightarrow> Inr (PBool b)
         | PInt i \<Rightarrow> Inr (PInt i))
      of
        Inl err \<Rightarrow> Inl err
      | Inr val' \<Rightarrow>
          (case sanitise_items e rest local domain of
             Inl err \<Rightarrow> Inl err
           | Inr rest' \<Rightarrow> Inr ((key, val') # rest')))"
| "sanitise_list e [] local domain = Inr []"
| "sanitise_list e (v # vs) local domain =
     (case sanitise e v local domain of
        Inl err \<Rightarrow> Inl err
      | Inr v' \<Rightarrow>
          (case sanitise_list e vs local domain of
             Inl err \<Rightarrow> Inl err
           | Inr vs' \<Rightarrow> Inr (v' # vs')))"

definition map_socket_type :: "Server \<Rightarrow> bool" where
  "map_socket_type server =
     (if ''SSL'' = socket_type server \<or> ''STARTTLS'' = socket_type server then True
      else False)"

definition map_authentication :: "Server \<Rightarrow> error + string" where
  \<open>map_authentication server =
     (case map_of AUTH_MAP (authentication server) of
        Some a \<Rightarrow> Inr a
      | None \<Rightarrow>
          Inl (InvalidAuthenticationType
                 (''Invalid authentication type "'' @ authentication server @ ''"'')))\<close>

subsection \<open>\<^verbatim>\<open>AppleGenerator.client_config\<close>\<close>

text \<open>The body of the loop over \<^verbatim>\<open>domain.servers\<close>, and the loop.\<close>

definition fill_server :: "dict \<Rightarrow> Server \<Rightarrow> error + dict" where
  \<open>fill_server inner server =
     (case map_of TYPE_DIRECTION_MAP (server_type server) of
        None \<Rightarrow> Inl (InvalidServerType (''Invalid server type "'' @ server_type server @ ''"''))
      | Some direction \<Rightarrow>
          (let inner = AList.update (direction @ ''MailServerHostName'')
                         (PStr (server_name server)) inner;
               inner = AList.update (direction @ ''MailServerPortNumber'')
                         (PInt (server_port server)) inner;
               inner = AList.update (direction @ ''MailServerUsername'')
                         (PStr (user_name server)) inner
           in case map_authentication server of
                Inl err \<Rightarrow> Inl err
              | Inr auth \<Rightarrow>
                  (let inner = AList.update (direction @ ''MailServerAuthentication'')
                                 (PStr auth) inner;
                       inner = AList.update (direction @ ''MailServerUseSSL'')
                                 (PBool (map_socket_type server)) inner
                   in Inr inner)))\<close>

fun fill_servers :: "dict \<Rightarrow> Server list \<Rightarrow> error + dict" where
  "fill_servers inner [] = Inr inner"
| "fill_servers inner (server # rest) =
     (case fill_server inner server of
        Inl err \<Rightarrow> Inl err
      | Inr inner' \<Rightarrow> fill_servers inner' rest)"

text \<open>
  What \<^verbatim>\<open>client_config\<close> returns: the empty string, or the bytes
  \<^verbatim>\<open>tostring(plist, 'utf-8')\<close> of the standard library, which the model keeps as the
  element they are the serialisation of.
\<close>

datatype document = Text string | Tostring element

text \<open>
  \<^verbatim>\<open>lookup_result and lookup_result.cn\<close>: the lookup was made and its common name
  is neither \<^verbatim>\<open>None\<close> nor empty.
\<close>

definition resolve_realname :: "LookupResult option \<Rightarrow> string \<Rightarrow> string" where
  "resolve_realname lookup_result realname =
     (case lookup_result of
        None \<Rightarrow> realname
      | Some r \<Rightarrow>
          (case cn r of
             None \<Rightarrow> realname
           | Some c \<Rightarrow> if c \<noteq> [] then c else realname))"

text \<open>Lines 177 to 194 of \<^verbatim>\<open>client_config\<close>, from \<^verbatim>\<open>_payload\<close> to the return.\<close>

definition build_config ::
  "env \<Rightarrow> LookupResult option \<Rightarrow> Domain \<Rightarrow> string \<Rightarrow> string \<Rightarrow> string \<Rightarrow> error + document"
where
  "build_config e lookup_result domain local_part domain_part realname =
     (case payload e local_part domain_part of
        (inner, outer) \<Rightarrow>
          (case fill_servers inner (servers domain) of
             Inl err \<Rightarrow> Inl err
           | Inr inner \<Rightarrow>
               (let realname = resolve_realname lookup_result realname;
                    inner = AList.update ''EmailAccountName'' (PStr realname) inner
                in case sanitise e (PDict (outer inner)) local_part domain_part of
                     Inl err \<Rightarrow> Inl err
                   | Inr outer' \<Rightarrow>
                       (let plist = Element ''plist'' [(''version'', ''1.0'')] None []
                        in Inr (Tostring (subtree plist '''' outer'))))))"

definition client_config ::
  "env \<Rightarrow> string \<Rightarrow> string \<Rightarrow> string \<Rightarrow> string \<Rightarrow> error + document"
where
  \<open>client_config e local_part domain_part realname password =
     (case find (\<lambda>d. domain_name d = domain_part) (domains e) of
        None \<Rightarrow> Inl (DomainNotFound (''Domain "'' @ domain_part @ ''" not found''))
      | Some domain \<Rightarrow>
          (case provider domain of
             None \<Rightarrow> Inl (NoProviderForDomain (''No provider for domain "'' @ domain_part @ ''"''))
           | Some prov \<Rightarrow>
               if servers domain = [] then
                 Inl (NoServersForDomain (''No servers for domain "'' @ domain_part @ ''"''))
               else
                 (case ldapserver domain of
                    Some ldap \<Rightarrow>
                      (let email_address = local_part @ ''@'' @ domain_part
                       in case ldap_lookup e email_address ldap of
                            Inl err \<Rightarrow> Inl err
                          | Inr lookup_result \<Rightarrow>
                              if status lookup_result = STATUS_NO_MATCH then Inr (Text [])
                              else build_config e (Some lookup_result) domain
                                     local_part domain_part realname)
                  | None \<Rightarrow>
                      build_config e None domain local_part domain_part realname)))\<close>

subsection \<open>A sample installation\<close>

text \<open>
  Concrete data for the examples: the domain of the spec's example, a domain with a
  directory server, and domains that miss a provider, servers or a transfer
  direction. The sample expander rewrites two whole-string templates, the sample
  \<^verbatim>\<open>format\<close> knows one filter template, and the sample directory knows two users.
\<close>

definition imap_server :: Server where
  "imap_server =
     \<lparr>server_type = ''imap'', server_name = ''mail.example.com'', server_port = 993,
      user_name = ''%EMAILADDRESS%'', authentication = ''plain'', socket_type = ''SSL''\<rparr>"

definition smtp_server :: Server where
  "smtp_server =
     \<lparr>server_type = ''smtp'', server_name = ''smtp.example.com'', server_port = 587,
      user_name = ''%EMAILADDRESS%'', authentication = ''plain'', socket_type = ''STARTTLS''\<rparr>"

definition pop_server :: Server where
  "pop_server =
     \<lparr>server_type = ''pop3'', server_name = ''pop.example.com'', server_port = 995,
      user_name = ''%EMAILADDRESS%'', authentication = ''digest'', socket_type = ''SSL''\<rparr>"

definition ntlm_server :: Server where
  "ntlm_server =
     \<lparr>server_type = ''imap'', server_name = ''ex.example.com'', server_port = 143,
      user_name = ''%EMAILLOCALPART%'', authentication = ''NTLM'', socket_type = ''plain''\<rparr>"

definition digest_server :: Server where
  "digest_server =
     \<lparr>server_type = ''smtp'', server_name = ''out.example.com'', server_port = 25,
      user_name = ''%EMAILLOCALPART%'', authentication = ''digest'', socket_type = ''plain''\<rparr>"

definition example_ldap :: Ldapserver where
  "example_ldap =
     \<lparr>ldap_name = ''ldap.corp.example'', ldap_port = 636, use_ssl = True,
      bind_user = ''cn=reader'', bind_password = ''secret'',
      search_base = ''dc=corp,dc=example'', search_filter = ''(mail={})'',
      attr_cn = ''cn'', attr_uid = ''uid''\<rparr>"

definition example_provider :: Provider where
  "example_provider = \<lparr>provider_name = ''Example Inc.''\<rparr>"

definition example_domains :: "Domain list" where
  "example_domains =
     [\<lparr>domain_name = ''example.com'', provider = Some example_provider,
       servers = [imap_server, smtp_server], ldapserver = None\<rparr>,
      \<lparr>domain_name = ''corp.example'', provider = Some example_provider,
       servers = [imap_server, smtp_server], ldapserver = Some example_ldap\<rparr>,
      \<lparr>domain_name = ''noprovider.example'', provider = None,
       servers = [imap_server, smtp_server], ldapserver = None\<rparr>,
      \<lparr>domain_name = ''noservers.example'', provider = Some example_provider,
       servers = [], ldapserver = None\<rparr>,
      \<lparr>domain_name = ''imaponly.example'', provider = Some example_provider,
       servers = [imap_server], ldapserver = None\<rparr>,
      \<lparr>domain_name = ''smtponly.example'', provider = Some example_provider,
       servers = [smtp_server], ldapserver = None\<rparr>,
      \<lparr>domain_name = ''pop.example'', provider = Some example_provider,
       servers = [pop_server], ldapserver = None\<rparr>,
      \<lparr>domain_name = ''digest.example'', provider = Some example_provider,
       servers = [ntlm_server, digest_server], ldapserver = None\<rparr>,
      \<lparr>domain_name = ''relay.example'', provider = Some example_provider,
       servers = [digest_server], ldapserver = None\<rparr>]"

definition example_lookup ::
  "LdapAccess \<Rightarrow> string \<Rightarrow> string \<Rightarrow> string \<Rightarrow> string \<Rightarrow> LookupResult"
where
  "example_lookup ldap base filter_str a_cn a_uid =
     (if filter_str = ''(mail=alice@corp.example)'' then
        \<lparr>status = STATUS_OK, cn = Some ''Alice Liddell'', uid = Some ''alice''\<rparr>
      else if filter_str = ''(mail=bob@corp.example)'' then
        \<lparr>status = STATUS_OK, cn = None, uid = Some ''bob''\<rparr>
      else if filter_str = ''(mail=root@corp.example)'' then
        \<lparr>status = STATUS_ERROR, cn = None, uid = None\<rparr>
      else \<lparr>status = STATUS_NO_MATCH, cn = None, uid = None\<rparr>)"

definition example_format :: "string \<Rightarrow> string \<Rightarrow> error + string" where
  "example_format template arg =
     (if template = ''(mail={})'' then Inr (''(mail='' @ arg @ '')'')
      else Inl (ValueError ''unsupported template''))"

definition example_expand :: "string \<Rightarrow> string \<Rightarrow> string \<Rightarrow> string" where
  "example_expand s local domain =
     (if s = ''%EMAILADDRESS%'' then local @ ''@'' @ domain
      else if s = ''%EMAILLOCALPART%'' then local
      else s)"

definition example_env :: env where
  "example_env =
     \<lparr>domains = example_domains, lookup = example_lookup, format = example_format,
      expand_placeholders = example_expand,
      unique1 = ''6f1c-0001'', unique2 = ''6f1c-0002'', IDENTIFIER = ''automx2''\<rparr>"

subsection \<open>The markup of a value, in the spec's words and in the code's\<close>

definition key_element :: "string \<Rightarrow> element" where
  "key_element key = Element ''key'' [] (Some key) []"

text \<open>
  The conversion as the spec words it: every value under a key is a key element and
  the element of the value; a mapping is a container around the conversion of its
  entries, a list is an array around the elements of its members, which have no key.
\<close>

fun spec_value :: "pyval \<Rightarrow> element" where
  "spec_value (PBool b) = Element (if b then ''true'' else ''false'') [] None []"
| "spec_value (PInt i) = Element ''integer'' [] (Some (str_int i)) []"
| "spec_value (PStr s) = Element ''string'' [] (Some s) []"
| "spec_value PNone = Element ''string'' [] None []"
| "spec_value (PDict kvs) =
     Element ''dict'' [] None
       (concat (map (\<lambda>kv. [key_element (fst kv), spec_value (snd kv)]) kvs))"
| "spec_value (PList vs) = Element ''array'' [] None (map spec_value vs)"

definition spec_markup :: "string \<Rightarrow> pyval \<Rightarrow> element list" where
  "spec_markup key v = [key_element key, spec_value v]"

text \<open>
  The elements \<^verbatim>\<open>_subtree\<close> appends to the parent, by the kind of the value: a mapping
  gives its container alone, and the members of a list are converted under the key
  \<^verbatim>\<open>dunno\<close>.
\<close>

fun markup :: "string \<Rightarrow> pyval \<Rightarrow> element list" where
  "markup key (PBool b) =
     [key_element key, Element (if b then ''true'' else ''false'') [] None []]"
| "markup key (PInt i) = [key_element key, Element ''integer'' [] (Some (str_int i)) []]"
| "markup key (PStr s) = [key_element key, Element ''string'' [] (Some s) []]"
| "markup key PNone = [key_element key, Element ''string'' [] None []]"
| "markup key (PDict kvs) =
     [Element ''dict'' [] None (concat (map (\<lambda>kv. markup (fst kv) (snd kv)) kvs))]"
| "markup key (PList vs) =
     [key_element key, Element ''array'' [] None (concat (map (markup ''dunno'') vs))]"




subsection \<open>Shapes of payloads and readers of the document\<close>

text \<open>
  A payload tree, as the spec's data model has it: a dictionary whose values are
  null, booleans, integers, strings, dictionaries of the same kind, or lists of
  payload trees.
\<close>

fun payload_tree :: "pyval \<Rightarrow> bool"
  and payload_items :: "dict \<Rightarrow> bool"
  and payload_list :: "pyval list \<Rightarrow> bool"
where
  "payload_tree (PDict kvs) = payload_items kvs"
| "payload_tree PNone = False"
| "payload_tree (PBool b) = False"
| "payload_tree (PInt i) = False"
| "payload_tree (PStr s) = False"
| "payload_tree (PList vs) = False"
| "payload_items [] = True"
| "payload_items ((key, val) # rest) =
     ((case val of PList vs \<Rightarrow> payload_list vs | PDict d \<Rightarrow> payload_items d | _ \<Rightarrow> True)
      \<and> payload_items rest)"
| "payload_list [] = True"
| "payload_list (v # vs) = (payload_tree v \<and> payload_list vs)"

text \<open>The keys of the null leaves, in the order in which the items are visited.\<close>

fun null_keys :: "pyval \<Rightarrow> string list"
  and null_keys_items :: "dict \<Rightarrow> string list"
  and null_keys_list :: "pyval list \<Rightarrow> string list"
where
  "null_keys (PDict kvs) = null_keys_items kvs"
| "null_keys (PList vs) = null_keys_list vs"
| "null_keys PNone = []"
| "null_keys (PBool b) = []"
| "null_keys (PInt i) = []"
| "null_keys (PStr s) = []"
| "null_keys_items [] = []"
| "null_keys_items ((key, val) # rest) =
     (if val = PNone then [key] else null_keys val) @ null_keys_items rest"
| "null_keys_list [] = []"
| "null_keys_list (v # vs) = null_keys v @ null_keys_list vs"

text \<open>
  Sanitisation as the spec words it: every string leaf is replaced by its expansion,
  in nested mappings and in the members of lists as well.
\<close>

fun expand_tree :: "(string \<Rightarrow> string) \<Rightarrow> pyval \<Rightarrow> pyval"
  and expand_items :: "(string \<Rightarrow> string) \<Rightarrow> dict \<Rightarrow> dict"
  and expand_list :: "(string \<Rightarrow> string) \<Rightarrow> pyval list \<Rightarrow> pyval list"
where
  "expand_tree f (PStr s) = PStr (f s)"
| "expand_tree f (PDict kvs) = PDict (expand_items f kvs)"
| "expand_tree f (PList vs) = PList (expand_list f vs)"
| "expand_tree f PNone = PNone"
| "expand_tree f (PBool b) = PBool b"
| "expand_tree f (PInt i) = PInt i"
| "expand_items f [] = []"
| "expand_items f ((key, val) # rest) = (key, expand_tree f val) # expand_items f rest"
| "expand_list f [] = []"
| "expand_list f (v # vs) = expand_tree f v # expand_list f vs"



text \<open>
  Reading the document: the element that follows the key element with a given text,
  and from there the text of a field of the account dictionary, the only member of the
  array under \<^verbatim>\<open>PayloadContent\<close>.
\<close>

fun value_after_key :: "string \<Rightarrow> element list \<Rightarrow> element option" where
  "value_after_key k (e1 # e2 # rest) =
     (if tag e1 = ''key'' \<and> etext e1 = Some k then Some e2
      else value_after_key k (e2 # rest))"
| "value_after_key k [e1] = None"
| "value_after_key k [] = None"

definition account_field :: "element \<Rightarrow> string \<Rightarrow> element option" where
  "account_field plist k =
     (case children plist of
        [root] \<Rightarrow>
          (case value_after_key ''PayloadContent'' (children root) of
             Some content \<Rightarrow>
               (case children content of
                  [account] \<Rightarrow> value_after_key k (children account)
                | _ \<Rightarrow> None)
           | None \<Rightarrow> None)
      | _ \<Rightarrow> None)"

definition account_text :: "error + document \<Rightarrow> string \<Rightarrow> string option" where
  "account_text res k =
     (case res of
        Inr (Tostring plist) \<Rightarrow>
          (case account_field plist k of Some el \<Rightarrow> etext el | None \<Rightarrow> None)
      | _ \<Rightarrow> None)"


subsection \<open>Reaching the fill\<close>

text \<open>
  \<^verbatim>\<open>client_config\<close> comes to \<^verbatim>\<open>_payload\<close> and the loop over the servers with the
  domain \<open>domain\<close> and the lookup result \<open>lookup_result\<close> when the domain is found, has a
  provider and servers, and either has no directory server (then the lookup result is
  \<^verbatim>\<open>None\<close>) or its lookup returned a result whose status is not "no-match".
\<close>

definition fill_reached ::
  "env \<Rightarrow> string \<Rightarrow> string \<Rightarrow> Domain \<Rightarrow> LookupResult option \<Rightarrow> bool"
where
  "fill_reached e local_part domain_part domain lookup_result =
     (find (\<lambda>d. domain_name d = domain_part) (domains e) = Some domain
      \<and> provider domain \<noteq> None
      \<and> servers domain \<noteq> []
      \<and> (case ldapserver domain of
            None \<Rightarrow> lookup_result = None
          | Some ldap \<Rightarrow>
              (case ldap_lookup e (local_part @ ''@'' @ domain_part) ldap of
                 Inl err \<Rightarrow> False
               | Inr r \<Rightarrow> status r \<noteq> STATUS_NO_MATCH \<and> lookup_result = Some r)))"

definition valid_server :: "Server \<Rightarrow> bool" where
  "valid_server server =
     (server_type server \<in> {''imap'', ''smtp''}
      \<and> authentication server \<in> {''none'', ''NTLM'', ''plain''})"

text \<open>The root element \<^verbatim>\<open>client_config\<close> creates, and two trees for the examples.\<close>

definition plist_root :: element where
  "plist_root = Element ''plist'' [(''version'', ''1.0'')] None []"



text \<open>
  Values that are neither mappings nor lists, the five keys the loop stores for a
  transfer direction, and a key that holds such a value other than null.
\<close>

fun flat :: "pyval \<Rightarrow> bool" where
  "flat (PDict kvs) = False"
| "flat (PList vs) = False"
| "flat v = True"

definition direction_keys :: "string \<Rightarrow> string list" where
  "direction_keys direction =
     [direction @ ''MailServerHostName'', direction @ ''MailServerPortNumber'',
      direction @ ''MailServerUsername'', direction @ ''MailServerAuthentication'',
      direction @ ''MailServerUseSSL'']"

definition filled :: "dict \<Rightarrow> string \<Rightarrow> bool" where
  "filled al k = (case map_of al k of Some v \<Rightarrow> flat v \<and> v \<noteq> PNone | None \<Rightarrow> False)"

section \<open>Properties\<close>

subsection \<open>Evaluating the sample installation\<close>

lemmas example_defs = example_env_def example_domains_def imap_server_def smtp_server_def
  pop_server_def ntlm_server_def digest_server_def example_ldap_def example_provider_def
  example_lookup_def example_format_def example_expand_def

lemmas config_defs = client_config_def build_config_def payload_def fill_server_def
  map_authentication_def map_socket_type_def AUTH_MAP_def TYPE_DIRECTION_MAP_def
  resolve_realname_def ldap_lookup_def branded_id_def Let_def

lemma example_documents:
  "\<exists>doc. client_config example_env ''alice'' ''example.com'' ''Alice A.'' ''pw''
           = Inr (Tostring doc)"
  "\<exists>doc. client_config example_env ''alice'' ''corp.example'' ''Alice A.'' ''pw''
           = Inr (Tostring doc)"
  "\<exists>doc. client_config example_env ''bob'' ''corp.example'' ''Robert'' ''pw''
           = Inr (Tostring doc)"
  by (simp_all add: example_defs config_defs)

subsection \<open>The directory lookup helper\<close>

text \<open>
  C4. \<^verbatim>\<open>_ldap_lookup\<close> raises \<^verbatim>\<open>LdapLookupError\<close> exactly when the result \<open>r\<close> of
  the directory client has status "error"; with any other status it returns \<open>r\<close>
  itself. The directory client is called once the search filter is formatted.
\<close>

theorem ldap_lookup_error_iff:
  assumes "format e (search_filter server) email_address = Inr filter_str"
    and "r = lookup e \<lparr>la_hostname = ldap_name server, la_port = ldap_port server,
                        la_use_ssl = use_ssl server, la_user = bind_user server,
                        la_password = bind_password server\<rparr>
                (search_base server) filter_str (attr_cn server) (attr_uid server)"
  shows "((\<exists>msg. ldap_lookup e email_address server = Inl (LdapLookupError msg))
            \<longleftrightarrow> status r = STATUS_ERROR)
       \<and> (status r \<noteq> STATUS_ERROR \<longrightarrow> ldap_lookup e email_address server = Inr r)
       \<and> (status r = STATUS_ERROR \<longrightarrow>
            ldap_lookup e email_address server = Inl (LdapLookupError ''LDAP bind failed''))"
  using assms by (simp add: ldap_lookup_def Let_def)

theorem ldap_lookup_error_iff_witness:
  "ldap_lookup example_env ''root@corp.example'' example_ldap
     = Inl (LdapLookupError ''LDAP bind failed'')
   \<and> ldap_lookup example_env ''alice@corp.example'' example_ldap
     = Inr \<lparr>status = STATUS_OK, cn = Some ''Alice Liddell'', uid = Some ''alice''\<rparr>
   \<and> ldap_lookup example_env ''carol@corp.example'' example_ldap
     = Inr \<lparr>status = STATUS_NO_MATCH, cn = None, uid = None\<rparr>"
proof -
  have f: "format example_env (search_filter example_ldap) a = Inr (''(mail='' @ a @ '')'')" for a
    by (simp add: example_env_def example_ldap_def example_format_def)
  show ?thesis
    using ldap_lookup_error_iff [OF f [of "''root@corp.example''"] refl]
      ldap_lookup_error_iff [OF f [of "''alice@corp.example''"] refl]
      ldap_lookup_error_iff [OF f [of "''carol@corp.example''"] refl]
    by (simp add: example_env_def example_ldap_def example_lookup_def)
qed

subsection \<open>The socket type\<close>

text \<open>
  C6. \<^verbatim>\<open>_map_socket_type\<close> is a total function of the socket type: it is true for
  \<^verbatim>\<open>SSL\<close> and for \<^verbatim>\<open>STARTTLS\<close> and false for every other value, and it has no
  error result.
\<close>

theorem map_socket_type_total:
  "map_socket_type server
     = (socket_type server = ''SSL'' \<or> socket_type server = ''STARTTLS'')"
  by (auto simp: map_socket_type_def)

subsection \<open>Resolving the domain\<close>

lemma example_find:
  "find (\<lambda>d. domain_name d = ''noprovider.example'') (domains example_env)
     = Some \<lparr>domain_name = ''noprovider.example'', provider = None,
             servers = [imap_server, smtp_server], ldapserver = None\<rparr>"
  "find (\<lambda>d. domain_name d = ''noservers.example'') (domains example_env)
     = Some \<lparr>domain_name = ''noservers.example'', provider = Some example_provider,
             servers = [], ldapserver = None\<rparr>"
  "find (\<lambda>d. domain_name d = ''corp.example'') (domains example_env)
     = Some \<lparr>domain_name = ''corp.example'', provider = Some example_provider,
             servers = [imap_server, smtp_server], ldapserver = Some example_ldap\<rparr>"
  by (simp_all add: example_env_def example_domains_def)

text \<open>
  C2. \<^verbatim>\<open>client_config\<close> resolves the domain, its provider and its servers in this
  order. A domain name that no row of the model has gives \<^verbatim>\<open>DomainNotFound\<close>; a
  domain that is found and has no provider gives \<^verbatim>\<open>NoProviderForDomain\<close>; a domain
  that is found and has a provider and an empty list of servers gives
  \<^verbatim>\<open>NoServersForDomain\<close>.
\<close>

theorem client_config_resolution_errors:
  \<open>(domain_part \<notin> domain_name ` set (domains e) \<longrightarrow>
      client_config e local_part domain_part realname password
        = Inl (DomainNotFound (''Domain "'' @ domain_part @ ''" not found'')))
   \<and> (find (\<lambda>d. domain_name d = domain_part) (domains e) = Some domain
        \<and> provider domain = None \<longrightarrow>
      client_config e local_part domain_part realname password
        = Inl (NoProviderForDomain (''No provider for domain "'' @ domain_part @ ''"'')))
   \<and> (find (\<lambda>d. domain_name d = domain_part) (domains e) = Some domain
        \<and> provider domain = Some prov \<and> servers domain = [] \<longrightarrow>
      client_config e local_part domain_part realname password
        = Inl (NoServersForDomain (''No servers for domain "'' @ domain_part @ ''"'')))\<close>
proof (intro conjI impI)
  assume "domain_part \<notin> domain_name ` set (domains e)"
  then have "find (\<lambda>d. domain_name d = domain_part) (domains e) = None"
    by (auto simp: find_None_iff)
  then show \<open>client_config e local_part domain_part realname password
        = Inl (DomainNotFound (''Domain "'' @ domain_part @ ''" not found''))\<close>
    by (simp add: client_config_def)
next
  assume "find (\<lambda>d. domain_name d = domain_part) (domains e) = Some domain
        \<and> provider domain = None"
  then show \<open>client_config e local_part domain_part realname password
        = Inl (NoProviderForDomain (''No provider for domain "'' @ domain_part @ ''"''))\<close>
    by (simp add: client_config_def)
next
  assume "find (\<lambda>d. domain_name d = domain_part) (domains e) = Some domain
        \<and> provider domain = Some prov \<and> servers domain = []"
  then show \<open>client_config e local_part domain_part realname password
        = Inl (NoServersForDomain (''No servers for domain "'' @ domain_part @ ''"''))\<close>
    by (simp add: client_config_def)
qed

theorem client_config_resolution_errors_witness:
  \<open>client_config example_env ''alice'' ''nowhere.example'' ''Alice A.'' ''pw''
     = Inl (DomainNotFound ''Domain "nowhere.example" not found'')
   \<and> client_config example_env ''alice'' ''noprovider.example'' ''Alice A.'' ''pw''
     = Inl (NoProviderForDomain ''No provider for domain "noprovider.example"'')
   \<and> client_config example_env ''alice'' ''noservers.example'' ''Alice A.'' ''pw''
     = Inl (NoServersForDomain ''No servers for domain "noservers.example"'')\<close>
proof -
  have absent: "''nowhere.example'' \<notin> domain_name ` set (domains example_env)"
    by (simp add: example_env_def example_domains_def)
  show ?thesis
    using absent example_find(1,2)
      client_config_resolution_errors [where domain_part = "''nowhere.example''"
        and e = example_env and local_part = "''alice''" and realname = "''Alice A.''"
        and password = "''pw''"]
      client_config_resolution_errors [where domain_part = "''noprovider.example''"
        and e = example_env
        and domain = "\<lparr>domain_name = ''noprovider.example'', provider = None,
             servers = [imap_server, smtp_server], ldapserver = None\<rparr>"
        and local_part = "''alice''" and realname = "''Alice A.''" and password = "''pw''"]
      client_config_resolution_errors [where domain_part = "''noservers.example''"
        and e = example_env
        and domain = "\<lparr>domain_name = ''noservers.example'', provider = Some example_provider,
             servers = [], ldapserver = None\<rparr>" and prov = example_provider
        and local_part = "''alice''" and realname = "''Alice A.''" and password = "''pw''"]
    by simp
qed

subsection \<open>A user the directory does not know\<close>

text \<open>
  C1. The directory is asked once domain, provider and servers are resolved. For a
  domain with a directory server, when \<^verbatim>\<open>_ldap_lookup\<close> for \<^verbatim>\<open>local@domain\<close> returns
  a result with status "no-match", \<^verbatim>\<open>client_config\<close> returns the empty string and
  raises nothing, whatever local part, domain, realname and password are.
\<close>

theorem client_config_no_match:
  assumes "find (\<lambda>d. domain_name d = domain_part) (domains e) = Some domain"
    and "provider domain = Some prov"
    and "servers domain \<noteq> []"
    and "ldapserver domain = Some ldap"
    and "ldap_lookup e (local_part @ ''@'' @ domain_part) ldap = Inr lookup_result"
    and "status lookup_result = STATUS_NO_MATCH"
  shows "client_config e local_part domain_part realname password = Inr (Text '''')"
  using assms by (simp add: client_config_def)

theorem client_config_no_match_witness:
  "client_config example_env ''carol'' ''corp.example'' ''Carol'' ''pw'' = Inr (Text '''')"
proof -
  have l: "ldap_lookup example_env (''carol'' @ ''@'' @ ''corp.example'') example_ldap
             = Inr \<lparr>status = STATUS_NO_MATCH, cn = None, uid = None\<rparr>"
    by (simp add: ldap_lookup_def example_env_def example_ldap_def example_format_def
        example_lookup_def)
  show ?thesis
    by (rule client_config_no_match [OF example_find(3) _ _ _ l]) (simp_all add: imap_server_def)
qed

subsection \<open>Serialisation\<close>

lemma fold_appends:
  assumes "\<And>x p. x \<in> set xs \<Longrightarrow> f x p = Element (tag p) (attrib p) (etext p) (children p @ g x)"
  shows "fold f xs p = Element (tag p) (attrib p) (etext p) (children p @ concat (map g xs))"
  using assms by (induction xs arbitrary: p) simp_all

lemma subtree_appends:
  "subtree parent key v
     = Element (tag parent) (attrib parent) (etext parent) (children parent @ markup key v)"
proof (induction parent key v rule: subtree.induct)
  case (1 parent key v)
  show ?case
  proof (cases v)
    case (PDict kvs)
    have "fold (\<lambda>kv p. subtree p (fst kv) (snd kv)) kvs (Element ''dict'' [] None [])
            = Element ''dict'' [] None (concat (map (\<lambda>kv. markup (fst kv) (snd kv)) kvs))"
      using "1.IH"(1) PDict
      by (subst fold_appends [where g = "\<lambda>kv. markup (fst kv) (snd kv)"]) simp_all
    then show ?thesis
      unfolding PDict by (simp add: subtree.simps [of parent key "PDict kvs"] SubElement_def)
  next
    case (PList vs)
    have "fold (\<lambda>v p. subtree p ''dunno'' v) vs (Element ''array'' [] None [])
            = Element ''array'' [] None (concat (map (markup ''dunno'') vs))"
      using "1.IH"(2) [OF _ _ _ _ refl] PList
      by (subst fold_appends [where g = "markup ''dunno''"]) simp_all
    then show ?thesis
      unfolding PList
      by (simp add: subtree.simps [of parent key "PList vs"] SubElement_def key_element_def)
  qed (simp_all add: subtree.simps [of parent key] SubElement_def key_element_def
        bool_element_def int_element_def str_element_def)
qed


text \<open>
  C8, as amended. \<^verbatim>\<open>_subtree\<close> appends to the parent one group of elements for the
  value, and the groups of a mapping's entries and of a list's members follow each
  other in insertion order: a boolean gives a key element and a \<^verbatim>\<open>true\<close> or
  \<^verbatim>\<open>false\<close> tag; an integer a key element and an \<^verbatim>\<open>integer\<close> tag with the decimal
  text of the value; a string a key element and a \<^verbatim>\<open>string\<close> tag; a mapping a
  \<^verbatim>\<open>dict\<close> container alone, without a key element, around the groups of its entries;
  a list a key element and an \<^verbatim>\<open>array\<close> container around the groups of its members,
  each converted under the key \<^verbatim>\<open>dunno\<close>, so that a member that is a mapping has no
  key.
\<close>

theorem subtree_markup:
  "subtree parent key v
     = Element (tag parent) (attrib parent) (etext parent) (children parent @ markup key v)"
  by (rule subtree_appends)

text \<open>
  C8 as the spec states it fails for a mapping that is the value of a key: the spec
  has a key element before the container, \<^verbatim>\<open>_subtree\<close> writes the container alone.
\<close>

theorem subtree_nested_mapping_counterexample:
  "subtree (Element ''dict'' [] None []) ''Outer'' (PDict [(''Flag'', PBool True)])
     = Element ''dict'' [] None
         [Element ''dict'' [] None
            [Element ''key'' [] (Some ''Flag'') [], Element ''true'' [] None []]]
   \<and> spec_markup ''Outer'' (PDict [(''Flag'', PBool True)])
     = [Element ''key'' [] (Some ''Outer'') [],
        Element ''dict'' [] None
          [Element ''key'' [] (Some ''Flag'') [], Element ''true'' [] None []]]
   \<and> subtree (Element ''dict'' [] None []) ''Outer'' (PDict [(''Flag'', PBool True)])
     \<noteq> Element ''dict'' [] None (spec_markup ''Outer'' (PDict [(''Flag'', PBool True)]))"
  by (simp add: subtree_appends spec_markup_def key_element_def)


subsection \<open>Sanitisation\<close>

lemma sanitise_payload:
  "payload_tree v \<Longrightarrow>
     sanitise e v l d =
       (case null_keys v of
          [] \<Rightarrow> Inr (expand_tree (\<lambda>s. expand_placeholders e s l d) v)
        | k # ks \<Rightarrow> Inl (missing_value k))"
  "payload_items kvs \<Longrightarrow>
     sanitise_items e kvs l d =
       (case null_keys_items kvs of
          [] \<Rightarrow> Inr (expand_items (\<lambda>s. expand_placeholders e s l d) kvs)
        | k # ks \<Rightarrow> Inl (missing_value k))"
  "payload_list vs \<Longrightarrow>
     sanitise_list e vs l d =
       (case null_keys_list vs of
          [] \<Rightarrow> Inr (expand_list (\<lambda>s. expand_placeholders e s l d) vs)
        | k # ks \<Rightarrow> Inl (missing_value k))"
proof (induction e v l d and e kvs l d and e vs l d
    rule: sanitise_sanitise_items_sanitise_list.induct)
  case (8 e key val rest l d)
  then show ?case
    by (cases val) (auto split: list.splits sum.splits)
next
  case (10 e v vs l d)
  then show ?case
    by (auto split: list.splits sum.splits)
qed (auto split: list.splits)

lemma sanitise_success:
  "sanitise e v l d = Inr v' \<Longrightarrow> payload_tree v \<and> null_keys v = []"
  "sanitise_items e kvs l d = Inr kvs' \<Longrightarrow> payload_items kvs \<and> null_keys_items kvs = []"
  "sanitise_list e vs l d = Inr vs' \<Longrightarrow> payload_list vs \<and> null_keys_list vs = []"
proof (induction e v l d and e kvs l d and e vs l d arbitrary: v' and kvs' and vs'
    rule: sanitise_sanitise_items_sanitise_list.induct)
  case (8 e key val rest l d)
  then show ?case
    by (cases val) (auto split: sum.splits)
next
  case (10 e v vs l d)
  then show ?case
    by (auto split: sum.splits)
qed (auto split: sum.splits)




lemma client_config_reached:
  assumes "fill_reached e l d dmn lr"
  shows "client_config e l d rn pw = build_config e lr dmn l d rn"
  using assms
  by (auto simp: fill_reached_def client_config_def split: option.splits sum.splits)

lemma client_config_success:
  assumes "client_config e l d rn pw = Inr (Tostring doc)"
  shows "\<exists>dmn lr. fill_reached e l d dmn lr"
  using assms
  by (auto simp: fill_reached_def client_config_def split: option.splits sum.splits if_splits)

lemma build_config_success:
  assumes "build_config e lr dmn l d rn = Inr res"
  shows "\<exists>inner t'.
           fill_servers (fst (payload e l d)) (servers dmn) = Inr inner
           \<and> sanitise e (PDict (snd (payload e l d)
                 (AList.update ''EmailAccountName'' (PStr (resolve_realname lr rn)) inner))) l d
               = Inr t'
           \<and> res = Tostring (subtree plist_root '''' t')"
  using assms
  by (simp add: build_config_def Let_def plist_root_def split: prod.splits sum.splits
      del: sanitise.simps)





subsection \<open>The account name of the document\<close>

lemma value_after_key_skip:
  "k' \<noteq> k \<Longrightarrow> value_after_key k (markup k' v @ rest) = value_after_key k rest"
  by (cases v; cases rest) (simp_all add: key_element_def)

lemma value_after_key_hit:
  "value_after_key k (markup k (PStr s) @ rest) = Some (Element ''string'' [] (Some s) [])"
  by (simp add: key_element_def)

lemma value_after_key_items:
  "map_of kvs k = Some (PStr s) \<Longrightarrow>
     value_after_key k (concat (map (\<lambda>kv. markup (fst kv) (snd kv)) kvs) @ rest)
       = Some (Element ''string'' [] (Some s) [])"
proof (induction kvs)
  case Nil
  then show ?case by simp
next
  case (Cons kv kvs)
  show ?case
  proof (cases "fst kv = k")
    case True
    with Cons.prems have "snd kv = PStr s"
      by (cases kv) simp
    with True show ?thesis
      using value_after_key_hit [of k s] by (simp del: markup.simps value_after_key.simps)
  next
    case False
    with Cons show ?thesis
      by (cases kv) (simp add: value_after_key_skip del: markup.simps value_after_key.simps)
  qed
qed

lemma map_of_expand_items:
  "map_of (expand_items f kvs) k = map_option (expand_tree f) (map_of kvs k)"
  by (induction kvs) auto

lemma build_config_account_name:
  assumes "build_config e lr dmn l d rn = Inr (Tostring doc)"
  shows "account_field doc ''EmailAccountName''
           = Some (Element ''string'' [] (Some (expand_placeholders e (resolve_realname lr rn) l d)) [])"
proof -
  let ?f = "\<lambda>s. expand_placeholders e s l d"
  from build_config_success [OF assms] obtain inner t' where
    t: "sanitise e (PDict (snd (payload e l d)
          (AList.update ''EmailAccountName'' (PStr (resolve_realname lr rn)) inner))) l d = Inr t'"
    and doc: "doc = subtree plist_root '''' t'"
    by blast
  let ?inner = "AList.update ''EmailAccountName'' (PStr (resolve_realname lr rn)) inner"
  from t have "payload_tree (PDict (snd (payload e l d) ?inner))"
    and "null_keys (PDict (snd (payload e l d) ?inner)) = []"
    using sanitise_success(1) by blast+
  with t have t': "t' = expand_tree ?f (PDict (snd (payload e l d) ?inner))"
    by (simp only: sanitise_payload(1) list.case sum.inject)
  have m: "map_of (expand_items ?f ?inner) ''EmailAccountName''
             = Some (PStr (?f (resolve_realname lr rn)))"
    by (simp add: map_of_expand_items update_conv')
  show ?thesis
    unfolding doc t'
    using value_after_key_items [OF m, of "[]"]
    by (simp add: payload_def Let_def subtree_appends plist_root_def account_field_def
        key_element_def)
qed

lemma example_reached:
  "fill_reached example_env ''alice'' ''example.com''
     \<lparr>domain_name = ''example.com'', provider = Some example_provider,
      servers = [imap_server, smtp_server], ldapserver = None\<rparr> None"
  "fill_reached example_env ''alice'' ''corp.example''
     \<lparr>domain_name = ''corp.example'', provider = Some example_provider,
      servers = [imap_server, smtp_server], ldapserver = Some example_ldap\<rparr>
     (Some \<lparr>status = STATUS_OK, cn = Some ''Alice Liddell'', uid = Some ''alice''\<rparr>)"
  "fill_reached example_env ''bob'' ''corp.example''
     \<lparr>domain_name = ''corp.example'', provider = Some example_provider,
      servers = [imap_server, smtp_server], ldapserver = Some example_ldap\<rparr>
     (Some \<lparr>status = STATUS_OK, cn = None, uid = Some ''bob''\<rparr>)"
  by (simp_all add: fill_reached_def ldap_lookup_def example_env_def example_domains_def
      example_ldap_def example_lookup_def example_format_def imap_server_def)

text \<open>
  C5, as amended. When \<^verbatim>\<open>client_config\<close> returns a document, its
  \<^verbatim>\<open>EmailAccountName\<close> is the expansion, by the sanitisation of every string leaf, of
  the common name when the lookup returned one that is not empty, and otherwise (no
  directory server, or a result without a common name) of the realname the caller gave.
  It is that name itself whenever the expansion leaves the name as it is.
\<close>

theorem client_config_account_name:
  assumes "fill_reached e l d dmn lr"
    and "client_config e l d rn pw = Inr (Tostring doc)"
  shows "(lr = Some r \<and> cn r = Some c \<and> c \<noteq> [] \<longrightarrow>
            account_text (client_config e l d rn pw) ''EmailAccountName''
              = Some (expand_placeholders e c l d))
       \<and> (lr = None \<or> (lr = Some r \<and> (cn r = None \<or> cn r = Some [])) \<longrightarrow>
            account_text (client_config e l d rn pw) ''EmailAccountName''
              = Some (expand_placeholders e rn l d))"
proof -
  from assms have "build_config e lr dmn l d rn = Inr (Tostring doc)"
    by (simp add: client_config_reached)
  then have "account_field doc ''EmailAccountName''
      = Some (Element ''string'' [] (Some (expand_placeholders e (resolve_realname lr rn) l d)) [])"
    by (rule build_config_account_name)
  with assms(2) have "account_text (client_config e l d rn pw) ''EmailAccountName''
      = Some (expand_placeholders e (resolve_realname lr rn) l d)"
    by (simp add: account_text_def)
  then show ?thesis
    by (auto simp: resolve_realname_def)
qed

theorem client_config_account_name_witness:
  "account_text (client_config example_env ''alice'' ''example.com'' ''Alice A.'' ''pw'')
     ''EmailAccountName'' = Some ''Alice A.''
   \<and> account_text (client_config example_env ''alice'' ''corp.example'' ''Alice A.'' ''pw'')
     ''EmailAccountName'' = Some ''Alice Liddell''
   \<and> account_text (client_config example_env ''bob'' ''corp.example'' ''Robert'' ''pw'')
     ''EmailAccountName'' = Some ''Robert''"
proof -
  from example_documents obtain doc1 doc2 doc3 where
    d1: "client_config example_env ''alice'' ''example.com'' ''Alice A.'' ''pw''
           = Inr (Tostring doc1)"
    and d2: "client_config example_env ''alice'' ''corp.example'' ''Alice A.'' ''pw''
           = Inr (Tostring doc2)"
    and d3: "client_config example_env ''bob'' ''corp.example'' ''Robert'' ''pw''
           = Inr (Tostring doc3)"
    by blast
  have x: "expand_placeholders example_env = example_expand"
    by (simp add: example_env_def)
  show ?thesis
    using client_config_account_name [OF example_reached(1) d1]
      client_config_account_name [OF example_reached(2) d2,
        of "\<lparr>status = STATUS_OK, cn = Some ''Alice Liddell'', uid = Some ''alice''\<rparr>"
          "''Alice Liddell''"]
      client_config_account_name [OF example_reached(3) d3,
        of "\<lparr>status = STATUS_OK, cn = None, uid = Some ''bob''\<rparr>"]
    by (simp add: x example_expand_def)
qed

text \<open>
  C5 as the spec states it fails for a name that the expander rewrites: with the sample
  expander the realname \<^verbatim>\<open>%EMAILLOCALPART%\<close> gives the account name \<^verbatim>\<open>alice\<close>.
\<close>

theorem client_config_account_name_counterexample:
  "account_text (client_config example_env ''alice'' ''example.com'' ''%EMAILLOCALPART%'' ''pw'')
     ''EmailAccountName'' = Some ''alice''
   \<and> account_text (client_config example_env ''alice'' ''example.com'' ''%EMAILLOCALPART%'' ''pw'')
     ''EmailAccountName'' \<noteq> Some ''%EMAILLOCALPART%''"
  by (simp add: example_defs config_defs account_text_def account_field_def subtree_appends
      key_element_def)

subsection \<open>Servers the loop rejects\<close>

lemma fill_server_invalid_type:
  assumes "server_type s \<notin> {''imap'', ''smtp''}"
  shows \<open>fill_server al s = Inl (InvalidServerType (''Invalid server type "'' @ server_type s @ ''"''))\<close>
  using assms by (simp add: fill_server_def TYPE_DIRECTION_MAP_def)

lemma map_authentication_cases:
  \<open>map_authentication s =
     (if authentication s = ''none'' then Inr ''EmailAuthNone''
      else if authentication s = ''NTLM'' then Inr ''EmailAuthNTLM''
      else if authentication s = ''plain'' then Inr ''EmailAuthPassword''
      else Inl (InvalidAuthenticationType
                  (''Invalid authentication type "'' @ authentication s @ ''"'')))\<close>
  by (simp add: map_authentication_def AUTH_MAP_def)

lemma fill_server_invalid_auth:
  assumes "server_type s \<in> {''imap'', ''smtp''}"
    and "authentication s \<notin> {''none'', ''NTLM'', ''plain''}"
  shows \<open>fill_server al s
           = Inl (InvalidAuthenticationType
                    (''Invalid authentication type "'' @ authentication s @ ''"''))\<close>
  using assms by (auto simp: fill_server_def TYPE_DIRECTION_MAP_def map_authentication_cases Let_def)

lemma fill_server_valid:
  assumes "valid_server s"
  shows "\<exists>al'. fill_server al s = Inr al'"
  using assms
  by (auto simp: valid_server_def fill_server_def TYPE_DIRECTION_MAP_def
      map_authentication_cases Let_def)

lemma fill_server_success:
  assumes "fill_server al s = Inr al'"
  shows "valid_server s"
  using assms
  by (auto simp: valid_server_def fill_server_def TYPE_DIRECTION_MAP_def
      map_authentication_cases Let_def split: if_splits)

lemma fill_servers_valid_prefix:
  assumes "\<forall>x \<in> set pre. valid_server x"
  shows "\<exists>al'. fill_servers al (pre @ rest) = fill_servers al' rest"
  using assms
proof (induction pre arbitrary: al)
  case Nil
  then show ?case by auto
next
  case (Cons x pre)
  then obtain al1 where "fill_server al x = Inr al1"
    using fill_server_valid [of x al] by auto
  with Cons show ?case by simp
qed

lemma fill_servers_valid:
  assumes "\<forall>x \<in> set ss. valid_server x"
  shows "\<exists>al'. fill_servers al ss = Inr al'"
  using fill_servers_valid_prefix [OF assms, of al "[]"] by simp

lemma fill_servers_success:
  assumes "fill_servers al ss = Inr al'"
  shows "\<forall>x \<in> set ss. valid_server x"
  using assms
  by (induction ss arbitrary: al) (auto split: sum.splits dest: fill_server_success)

lemma build_config_fill_error:
  assumes "fill_servers (fst (payload e l d)) (servers dmn) = Inl err"
  shows "build_config e lr dmn l d rn = Inl err"
  using assms by (cases "payload e l d") (simp add: build_config_def)

text \<open>
  C3, as amended. The loop takes the servers in order, and the first server with an
  unknown type or an unknown authentication kind decides the error. When the loop
  comes to a server (the servers before it are valid): a type outside
  \<^verbatim>\<open>imap\<close>, \<^verbatim>\<open>smtp\<close> raises \<^verbatim>\<open>InvalidServerType\<close>; a known type with an
  authentication kind outside \<^verbatim>\<open>none\<close>, \<^verbatim>\<open>NTLM\<close>, \<^verbatim>\<open>plain\<close> raises
  \<^verbatim>\<open>InvalidAuthenticationType\<close>. The known kinds map to \<^verbatim>\<open>EmailAuthNone\<close>,
  \<^verbatim>\<open>EmailAuthNTLM\<close> and \<^verbatim>\<open>EmailAuthPassword\<close>.
\<close>

theorem client_config_invalid_server:
  assumes "fill_reached e l d dmn lr"
    and "servers dmn = pre @ s # post"
    and "\<forall>x \<in> set pre. valid_server x"
  shows \<open>(server_type s \<notin> {''imap'', ''smtp''} \<longrightarrow>
            client_config e l d rn pw
              = Inl (InvalidServerType (''Invalid server type "'' @ server_type s @ ''"'')))
       \<and> (server_type s \<in> {''imap'', ''smtp''}
            \<and> authentication s \<notin> {''none'', ''NTLM'', ''plain''} \<longrightarrow>
            client_config e l d rn pw
              = Inl (InvalidAuthenticationType
                       (''Invalid authentication type "'' @ authentication s @ ''"'')))
       \<and> map_authentication s =
           (if authentication s = ''none'' then Inr ''EmailAuthNone''
            else if authentication s = ''NTLM'' then Inr ''EmailAuthNTLM''
            else if authentication s = ''plain'' then Inr ''EmailAuthPassword''
            else Inl (InvalidAuthenticationType
                        (''Invalid authentication type "'' @ authentication s @ ''"'')))\<close>
proof -
  from assms(3) obtain al where
    "fill_servers (fst (payload e l d)) (pre @ s # post) = fill_servers al (s # post)"
    using fill_servers_valid_prefix by blast
  then have f: "fill_server al s = Inl err \<Longrightarrow> client_config e l d rn pw = Inl err" for err
    using assms(1,2) by (simp add: client_config_reached build_config_fill_error)
  show ?thesis
    using f fill_server_invalid_type [of s al] fill_server_invalid_auth [of s al]
      map_authentication_cases [of s]
    by (intro conjI impI) blast+
qed

lemma example_reached_invalid:
  "fill_reached example_env ''alice'' ''pop.example''
     \<lparr>domain_name = ''pop.example'', provider = Some example_provider,
      servers = [pop_server], ldapserver = None\<rparr> None"
  "fill_reached example_env ''alice'' ''digest.example''
     \<lparr>domain_name = ''digest.example'', provider = Some example_provider,
      servers = [ntlm_server, digest_server], ldapserver = None\<rparr> None"
  by (simp_all add: fill_reached_def example_env_def example_domains_def)

theorem client_config_invalid_server_witness:
  \<open>client_config example_env ''alice'' ''pop.example'' ''Alice A.'' ''pw''
     = Inl (InvalidServerType ''Invalid server type "pop3"'')
   \<and> client_config example_env ''alice'' ''digest.example'' ''Alice A.'' ''pw''
     = Inl (InvalidAuthenticationType ''Invalid authentication type "digest"'')
   \<and> map_authentication ntlm_server = Inr ''EmailAuthNTLM''\<close>
proof -
  have v: "\<forall>x \<in> set [ntlm_server]. valid_server x"
    by (simp add: valid_server_def ntlm_server_def)
  show ?thesis
    using client_config_invalid_server [OF example_reached_invalid(1), of "[]" pop_server "[]"]
      client_config_invalid_server [OF example_reached_invalid(2), of "[ntlm_server]"
        digest_server "[]", OF _ v]
      client_config_invalid_server [OF example_reached_invalid(2), of "[]"
        ntlm_server "[digest_server]"]
    by (simp add: pop_server_def digest_server_def ntlm_server_def)
qed

text \<open>
  C3 as the spec states it fails for a server whose type and authentication kind are
  both unknown: the type is tested first, and the error is \<^verbatim>\<open>InvalidServerType\<close>.
\<close>

theorem client_config_invalid_server_counterexample:
  \<open>servers \<lparr>domain_name = ''pop.example'', provider = Some example_provider,
            servers = [pop_server], ldapserver = None\<rparr> = [pop_server]
   \<and> authentication pop_server \<notin> {''none'', ''NTLM'', ''plain''}
   \<and> client_config example_env ''alice'' ''pop.example'' ''Alice A.'' ''pw''
       = Inl (InvalidServerType ''Invalid server type "pop3"'')\<close>
  by (simp add: example_defs config_defs)

subsection \<open>A transfer direction without a server\<close>

lemma alist_rebuild:
  "distinct (map fst al) \<Longrightarrow> al = map (\<lambda>k. (k, the (map_of al k))) (map fst al)"
proof (induction al)
  case Nil
  then show ?case by simp
next
  case (Cons kv al)
  have "map_of (kv # al) k = map_of al k" if "k \<in> set (map fst al)" for k
    using that Cons.prems by (cases kv) auto
  then have "map (\<lambda>k. (k, the (map_of (kv # al) k))) (map fst al)
               = map (\<lambda>k. (k, the (map_of al k))) (map fst al)"
    by (intro map_cong refl) simp
  also have "\<dots> = al"
    using Cons by simp
  finally show ?case
    by (cases kv) simp
qed

lemma sanitise_items_first_null:
  assumes "\<forall>kv \<in> set xs. flat (snd kv) \<and> snd kv \<noteq> PNone"
  shows "sanitise_items e (xs @ (k, PNone) # ys) l d = Inl (missing_value k)"
  using assms
proof (induction xs)
  case Nil
  then show ?case by simp
next
  case (Cons kv xs)
  then show ?case
    by (cases kv; cases "snd kv") auto
qed

lemma fill_server_map_of:
  assumes "fill_server al s = Inr al'"
  shows "\<exists>direction auth.
           map_of TYPE_DIRECTION_MAP (server_type s) = Some direction
           \<and> map_of al' = (map_of al)
                (direction @ ''MailServerHostName'' \<mapsto> PStr (server_name s),
                 direction @ ''MailServerPortNumber'' \<mapsto> PInt (server_port s),
                 direction @ ''MailServerUsername'' \<mapsto> PStr (user_name s),
                 direction @ ''MailServerAuthentication'' \<mapsto> PStr auth,
                 direction @ ''MailServerUseSSL'' \<mapsto> PBool (map_socket_type s))"
  using assms
  by (auto simp: fill_server_def Let_def update_conv' split: option.splits sum.splits)

lemma update_keys_present:
  "k \<in> set (map fst al) \<Longrightarrow> map fst (AList.update k v al) = map fst al"
  by (simp add: update_keys)

lemma fill_server_result:
  assumes "fill_server al s = Inr al'"
  shows "\<exists>direction auth.
           map_of TYPE_DIRECTION_MAP (server_type s) = Some direction
           \<and> al' = AList.update (direction @ ''MailServerUseSSL'') (PBool (map_socket_type s))
                   (AList.update (direction @ ''MailServerAuthentication'') (PStr auth)
                   (AList.update (direction @ ''MailServerUsername'') (PStr (user_name s))
                   (AList.update (direction @ ''MailServerPortNumber'') (PInt (server_port s))
                   (AList.update (direction @ ''MailServerHostName'') (PStr (server_name s))
                      al))))"
  using assms
  by (auto simp: fill_server_def Let_def split: option.splits sum.splits)

lemma direction_cases:
  assumes "map_of TYPE_DIRECTION_MAP t = Some direction"
  shows "(t = ''imap'' \<and> direction = ''Incoming'') \<or> (t = ''smtp'' \<and> direction = ''Outgoing'')"
  using assms by (auto simp: TYPE_DIRECTION_MAP_def split: if_splits)

lemma fill_server_keys:
  assumes "fill_server al s = Inr al'"
    and "\<forall>direction \<in> {''Incoming'', ''Outgoing''}.
           set (direction_keys direction) \<subseteq> set (map fst al)"
  shows "map fst al' = map fst al"
proof -
  from fill_server_result [OF assms(1)] obtain direction auth where
    d: "map_of TYPE_DIRECTION_MAP (server_type s) = Some direction"
    and al': "al' = AList.update (direction @ ''MailServerUseSSL'') (PBool (map_socket_type s))
                   (AList.update (direction @ ''MailServerAuthentication'') (PStr auth)
                   (AList.update (direction @ ''MailServerUsername'') (PStr (user_name s))
                   (AList.update (direction @ ''MailServerPortNumber'') (PInt (server_port s))
                   (AList.update (direction @ ''MailServerHostName'') (PStr (server_name s))
                      al))))"
    by blast
  from d have "direction \<in> {''Incoming'', ''Outgoing''}"
    using direction_cases by blast
  with assms(2) have "set (direction_keys direction) \<subseteq> set (map fst al)"
    by blast
  then have k: "direction @ ''MailServerHostName'' \<in> set (map fst al)"
    "direction @ ''MailServerPortNumber'' \<in> set (map fst al)"
    "direction @ ''MailServerUsername'' \<in> set (map fst al)"
    "direction @ ''MailServerAuthentication'' \<in> set (map fst al)"
    "direction @ ''MailServerUseSSL'' \<in> set (map fst al)"
    unfolding direction_keys_def by simp_all
  show ?thesis
    unfolding al' by (simp only: update_keys_present k)
qed

lemma fill_servers_keys:
  assumes "fill_servers al ss = Inr al'"
    and "\<forall>direction \<in> {''Incoming'', ''Outgoing''}.
           set (direction_keys direction) \<subseteq> set (map fst al)"
  shows "map fst al' = map fst al"
  using assms
proof (induction ss arbitrary: al)
  case Nil
  then show ?case by simp
next
  case (Cons s ss)
  from Cons.prems(1) obtain al1 where
    a: "fill_server al s = Inr al1" and b: "fill_servers al1 ss = Inr al'"
    by (auto split: sum.splits)
  from a Cons.prems(2) have k: "map fst al1 = map fst al"
    by (rule fill_server_keys)
  from Cons.IH [OF b] Cons.prems(2) k show ?case
    by simp
qed

lemma fill_server_untouched:
  assumes "fill_server al s = Inr al'"
    and "\<forall>direction. map_of TYPE_DIRECTION_MAP (server_type s) = Some direction
           \<longrightarrow> k \<notin> set (direction_keys direction)"
  shows "map_of al' k = map_of al k"
  using fill_server_map_of [OF assms(1)] assms(2)
  by (auto simp: direction_keys_def)

lemma fill_servers_untouched:
  assumes "fill_servers al ss = Inr al'"
    and "\<forall>s \<in> set ss. \<forall>direction.
           map_of TYPE_DIRECTION_MAP (server_type s) = Some direction
             \<longrightarrow> k \<notin> set (direction_keys direction)"
  shows "map_of al' k = map_of al k"
  using assms
proof (induction ss arbitrary: al)
  case Nil
  then show ?case by simp
next
  case (Cons s ss)
  from Cons.prems(1) obtain al1 where
    a: "fill_server al s = Inr al1" and b: "fill_servers al1 ss = Inr al'"
    by (auto split: sum.splits)
  from a Cons.prems(2) have "map_of al1 k = map_of al k"
    by (intro fill_server_untouched) auto
  with Cons.IH [OF b] Cons.prems(2) show ?case
    by simp
qed

lemma fill_server_filled:
  assumes "fill_server al s = Inr al'" and "filled al k"
  shows "filled al' k"
  using fill_server_map_of [OF assms(1)] assms(2)
  by (auto simp: filled_def)

lemma fill_servers_filled:
  assumes "fill_servers al ss = Inr al'" and "filled al k"
  shows "filled al' k"
  using assms
  by (induction ss arbitrary: al) (auto split: sum.splits dest: fill_server_filled)

lemma fill_server_touched:
  assumes "fill_server al s = Inr al'"
    and "map_of TYPE_DIRECTION_MAP (server_type s) = Some direction"
    and "k \<in> set (direction_keys direction)"
  shows "filled al' k"
  using fill_server_map_of [OF assms(1)] assms(2,3)
  by (auto simp: filled_def direction_keys_def)

lemma fill_servers_touched:
  assumes "fill_servers al ss = Inr al'"
    and "s \<in> set ss"
    and "map_of TYPE_DIRECTION_MAP (server_type s) = Some direction"
    and "k \<in> set (direction_keys direction)"
  shows "filled al' k"
  using assms
proof (induction ss arbitrary: al)
  case Nil
  then show ?case by simp
next
  case (Cons x ss)
  from Cons.prems(1) obtain al1 where
    a: "fill_server al x = Inr al1" and b: "fill_servers al1 ss = Inr al'"
    by (auto split: sum.splits)
  show ?case
  proof (cases "s = x")
    case True
    with a Cons.prems(3,4) have "filled al1 k"
      by (auto intro: fill_server_touched)
    with b show ?thesis
      by (rule fill_servers_filled)
  next
    case False
    with Cons.prems(2) have "s \<in> set ss" by simp
    from Cons.IH [OF b this Cons.prems(3,4)] show ?thesis .
  qed
qed

lemma sanitise_items_missing:
  assumes "distinct (map fst al)"
    and "map fst al = pre @ k # post"
    and "map_of al k = Some PNone"
    and "\<forall>k' \<in> set pre. filled al k'"
  shows "sanitise_items e al l d = Inl (missing_value k)"
proof -
  let ?g = "\<lambda>k. (k, the (map_of al k))"
  from alist_rebuild [OF assms(1)] assms(2,3)
  have al: "al = map ?g pre @ (k, PNone) # map ?g post"
    by simp
  have "\<forall>kv \<in> set (map ?g pre). flat (snd kv) \<and> snd kv \<noteq> PNone"
    using assms(4) by (auto simp: filled_def split: option.splits)
  then have "sanitise_items e (map ?g pre @ (k, PNone) # map ?g post) l d = Inl (missing_value k)"
    by (rule sanitise_items_first_null)
  with al show ?thesis
    by simp
qed

lemma payload_keys:
  "map fst (fst (payload e l d)) =
     [''EmailAccountDescription'', ''EmailAccountName'', ''EmailAccountType'', ''EmailAddress'',
      ''IncomingMailServerAuthentication'', ''IncomingMailServerHostName'',
      ''IncomingMailServerPortNumber'', ''IncomingMailServerUseSSL'',
      ''IncomingMailServerUsername'', ''OutgoingMailServerAuthentication'',
      ''OutgoingMailServerHostName'', ''OutgoingMailServerPortNumber'',
      ''OutgoingMailServerUseSSL'', ''OutgoingMailServerUsername'',
      ''OutgoingPasswordSameAsIncomingPassword'', ''PayloadDescription'',
      ''PayloadDisplayName'', ''PayloadIdentifier'', ''PayloadType'', ''PayloadUUID'',
      ''PayloadVersion'', ''SMIMEEnablePerMessageSwitch'', ''SMIMEEnabled'',
      ''SMIMEEncryptionEnabled'', ''SMIMESigningEnabled'', ''allowMailDrop'',
      ''disableMailRecentsSyncing'']"
  by (simp add: payload_def Let_def)

lemma payload_values:
  "filled (fst (payload e l d)) ''EmailAccountDescription''"
  "filled (fst (payload e l d)) ''EmailAccountType''"
  "filled (fst (payload e l d)) ''EmailAddress''"
  "filled (fst (payload e l d)) ''IncomingMailServerAuthentication''"
  "filled (fst (payload e l d)) ''OutgoingMailServerAuthentication''"
  "map_of (fst (payload e l d)) ''IncomingMailServerHostName'' = Some PNone"
  "map_of (fst (payload e l d)) ''OutgoingMailServerHostName'' = Some PNone"
  by (simp_all add: payload_def Let_def filled_def)

lemma filled_update:
  assumes "filled al k"
  shows "filled (AList.update k' (PStr name) al) k"
  using assms by (simp add: filled_def update_conv')

lemma build_config_missing:
  assumes "fill_servers (fst (payload e l d)) (servers dmn) = Inr inner"
    and "sanitise_items e
           (AList.update ''EmailAccountName'' (PStr (resolve_realname lr rn)) inner) l d
           = Inl err"
  shows "build_config e lr dmn l d rn = Inl err"
  using assms by (cases "payload e l d") (simp add: build_config_def payload_def Let_def)

lemma filled_keys:
  assumes "fill_servers (fst (payload e l d)) ss = Inr inner"
  shows "map fst (AList.update ''EmailAccountName'' (PStr name) inner)
           = map fst (fst (payload e l d))"
proof -
  have "\<forall>direction \<in> {''Incoming'', ''Outgoing''}.
          set (direction_keys direction) \<subseteq> set (map fst (fst (payload e l d)))"
    by (simp add: payload_keys direction_keys_def)
  with assms have "map fst inner = map fst (fst (payload e l d))"
    by (rule fill_servers_keys)
  then show ?thesis
    by (simp add: update_keys_present payload_keys)
qed

lemma incoming_missing:
  assumes fill: "fill_servers (fst (payload e l d)) ss = Inr inner"
    and no_imap: "\<forall>s \<in> set ss. server_type s \<noteq> ''imap''"
  shows "sanitise_items e (AList.update ''EmailAccountName'' (PStr name) inner) l d
           = Inl (missing_value ''IncomingMailServerHostName'')"
proof -
  let ?al = "AList.update ''EmailAccountName'' (PStr name) inner"
  have same: "map_of inner k = map_of (fst (payload e l d)) k"
    if "k \<notin> set (direction_keys ''Outgoing'')" for k
  proof (rule fill_servers_untouched [OF fill], intro ballI allI impI)
    fix s direction
    assume "s \<in> set ss" "map_of TYPE_DIRECTION_MAP (server_type s) = Some direction"
    with no_imap have "direction = ''Outgoing''"
      using direction_cases by blast
    with that show "k \<notin> set (direction_keys direction)" by simp
  qed
  have keys: "map fst ?al =
      [''EmailAccountDescription'', ''EmailAccountName'', ''EmailAccountType'', ''EmailAddress'',
       ''IncomingMailServerAuthentication'']
      @ ''IncomingMailServerHostName''
      # drop 6 (map fst (fst (payload e l d)))"
    by (simp add: filled_keys [OF fill] payload_keys)
  have dist: "distinct (map fst ?al)"
    by (simp add: filled_keys [OF fill] payload_keys)
  have null: "map_of ?al ''IncomingMailServerHostName'' = Some PNone"
    by (simp add: update_conv' same direction_keys_def payload_values)
  have pre: "\<forall>k' \<in> set [''EmailAccountDescription'', ''EmailAccountName'', ''EmailAccountType'',
      ''EmailAddress'', ''IncomingMailServerAuthentication'']. filled ?al k'"
    using payload_values(1-4) [of e l d]
    by (simp add: filled_def update_conv' same direction_keys_def)
  from dist keys null pre show ?thesis
    by (rule sanitise_items_missing)
qed

lemma outgoing_missing:
  assumes fill: "fill_servers (fst (payload e l d)) ss = Inr inner"
    and imap: "s \<in> set ss" "server_type s = ''imap''"
    and no_smtp: "\<forall>s \<in> set ss. server_type s \<noteq> ''smtp''"
  shows "sanitise_items e (AList.update ''EmailAccountName'' (PStr name) inner) l d
           = Inl (missing_value ''OutgoingMailServerHostName'')"
proof -
  let ?al = "AList.update ''EmailAccountName'' (PStr name) inner"
  have same: "map_of inner k = map_of (fst (payload e l d)) k"
    if "k \<notin> set (direction_keys ''Incoming'')" for k
  proof (rule fill_servers_untouched [OF fill], intro ballI allI impI)
    fix s direction
    assume "s \<in> set ss" "map_of TYPE_DIRECTION_MAP (server_type s) = Some direction"
    with no_smtp have "direction = ''Incoming''"
      using direction_cases by blast
    with that show "k \<notin> set (direction_keys direction)" by simp
  qed
  have "map_of TYPE_DIRECTION_MAP (server_type s) = Some ''Incoming''"
    using imap(2) by (simp add: TYPE_DIRECTION_MAP_def)
  then have touched: "filled inner k" if "k \<in> set (direction_keys ''Incoming'')" for k
    using fill_servers_touched [OF fill imap(1)] that by blast
  have keys: "map fst ?al =
      [''EmailAccountDescription'', ''EmailAccountName'', ''EmailAccountType'', ''EmailAddress'',
       ''IncomingMailServerAuthentication'', ''IncomingMailServerHostName'',
       ''IncomingMailServerPortNumber'', ''IncomingMailServerUseSSL'',
       ''IncomingMailServerUsername'', ''OutgoingMailServerAuthentication'']
      @ ''OutgoingMailServerHostName''
      # drop 11 (map fst (fst (payload e l d)))"
    by (simp add: filled_keys [OF fill] payload_keys)
  have dist: "distinct (map fst ?al)"
    by (simp add: filled_keys [OF fill] payload_keys)
  have null: "map_of ?al ''OutgoingMailServerHostName'' = Some PNone"
    by (simp add: update_conv' same direction_keys_def payload_values)
  have a: "filled ?al k" if "k \<in> set (direction_keys ''Incoming'')" for k
    using touched [OF that] by (rule filled_update)
  have b: "filled ?al k"
    if "k \<in> {''EmailAccountDescription'', ''EmailAccountType'', ''EmailAddress'',
               ''OutgoingMailServerAuthentication''}" for k
  proof -
    from that have "k \<notin> set (direction_keys ''Incoming'')"
      by (auto simp: direction_keys_def)
    then have "map_of inner k = map_of (fst (payload e l d)) k"
      by (rule same)
    moreover from that have "filled (fst (payload e l d)) k"
      using payload_values(1,2,3,5) [of e l d] by auto
    ultimately have "filled inner k"
      by (simp add: filled_def)
    then show ?thesis by (rule filled_update)
  qed
  have c: "filled ?al ''EmailAccountName''"
    by (simp add: filled_def update_conv')
  have pre: "\<forall>k' \<in> set [''EmailAccountDescription'', ''EmailAccountName'', ''EmailAccountType'',
      ''EmailAddress'', ''IncomingMailServerAuthentication'', ''IncomingMailServerHostName'',
      ''IncomingMailServerPortNumber'', ''IncomingMailServerUseSSL'',
      ''IncomingMailServerUsername'', ''OutgoingMailServerAuthentication'']. filled ?al k'"
    using a b c by (simp add: direction_keys_def)
  from dist keys null pre show ?thesis
    by (rule sanitise_items_missing)
qed

lemma client_config_incoming_missing:
  assumes "fill_reached e l d dmn lr"
    and "\<forall>s \<in> set (servers dmn). valid_server s"
    and "\<forall>s \<in> set (servers dmn). server_type s \<noteq> ''imap''"
  shows "client_config e l d rn pw = Inl (missing_value ''IncomingMailServerHostName'')"
proof -
  from assms(2) obtain inner where
    fill: "fill_servers (fst (payload e l d)) (servers dmn) = Inr inner"
    using fill_servers_valid by blast
  from fill assms(3) have "sanitise_items e
      (AList.update ''EmailAccountName'' (PStr (resolve_realname lr rn)) inner) l d
        = Inl (missing_value ''IncomingMailServerHostName'')"
    by (rule incoming_missing)
  with fill have "build_config e lr dmn l d rn
      = Inl (missing_value ''IncomingMailServerHostName'')"
    by (rule build_config_missing)
  with assms(1) show ?thesis
    by (simp add: client_config_reached)
qed

lemma client_config_outgoing_missing:
  assumes "fill_reached e l d dmn lr"
    and "\<forall>s \<in> set (servers dmn). valid_server s"
    and "\<exists>s \<in> set (servers dmn). server_type s = ''imap''"
    and "\<forall>s \<in> set (servers dmn). server_type s \<noteq> ''smtp''"
  shows "client_config e l d rn pw = Inl (missing_value ''OutgoingMailServerHostName'')"
proof -
  from assms(2) obtain inner where
    fill: "fill_servers (fst (payload e l d)) (servers dmn) = Inr inner"
    using fill_servers_valid by blast
  from assms(3) obtain s where s: "s \<in> set (servers dmn)" "server_type s = ''imap''"
    by blast
  from fill s assms(4) have "sanitise_items e
      (AList.update ''EmailAccountName'' (PStr (resolve_realname lr rn)) inner) l d
        = Inl (missing_value ''OutgoingMailServerHostName'')"
    by (rule outgoing_missing)
  with fill have "build_config e lr dmn l d rn
      = Inl (missing_value ''OutgoingMailServerHostName'')"
    by (rule build_config_missing)
  with assms(1) show ?thesis
    by (simp add: client_config_reached)
qed

lemma client_config_success_valid:
  assumes "client_config e l d rn pw = Inr (Tostring doc)"
    and "find (\<lambda>x. domain_name x = d) (domains e) = Some dmn"
  shows "\<exists>lr. fill_reached e l d dmn lr \<and> (\<forall>s \<in> set (servers dmn). valid_server s)"
proof -
  from client_config_success [OF assms(1)] obtain dmn' lr where
    r: "fill_reached e l d dmn' lr"
    by blast
  with assms(2) have "dmn' = dmn"
    by (simp add: fill_reached_def)
  with r have r': "fill_reached e l d dmn lr"
    by simp
  with assms(1) have "build_config e lr dmn l d rn = Inr (Tostring doc)"
    by (simp add: client_config_reached)
  from build_config_success [OF this] obtain inner where
    "fill_servers (fst (payload e l d)) (servers dmn) = Inr inner"
    by blast
  then have "\<forall>s \<in> set (servers dmn). valid_server s"
    by (rule fill_servers_success)
  with r' show ?thesis
    by blast
qed

text \<open>
  C10, as amended. Take a domain for which \<^verbatim>\<open>client_config\<close> comes to the fill (the
  domain is found, has a provider and servers, and its directory lookup, if any, neither
  fails nor ends in "no-match") and whose servers all have a known type and a known
  authentication kind. When none of the servers is an \<^verbatim>\<open>imap\<close> server,
  \<^verbatim>\<open>client_config\<close> raises the payload error for \<^verbatim>\<open>IncomingMailServerHostName\<close>; when
  one is and none is an \<^verbatim>\<open>smtp\<close> server, it raises the payload error for
  \<^verbatim>\<open>OutgoingMailServerHostName\<close>: the null of the base payload is still there when the
  tree is sanitised. So a document is returned only for a domain with an \<^verbatim>\<open>imap\<close> and
  an \<^verbatim>\<open>smtp\<close> server.
\<close>

theorem client_config_uncovered_direction:
  \<open>(fill_reached e l d dmn lr \<and> (\<forall>s \<in> set (servers dmn). valid_server s)
      \<and> (\<forall>s \<in> set (servers dmn). server_type s \<noteq> ''imap'') \<longrightarrow>
      client_config e l d rn pw
        = Inl (TypeError ''Missing value for payload key "IncomingMailServerHostName"''))
   \<and> (fill_reached e l d dmn lr \<and> (\<forall>s \<in> set (servers dmn). valid_server s)
      \<and> (\<exists>s \<in> set (servers dmn). server_type s = ''imap'')
      \<and> (\<forall>s \<in> set (servers dmn). server_type s \<noteq> ''smtp'') \<longrightarrow>
      client_config e l d rn pw
        = Inl (TypeError ''Missing value for payload key "OutgoingMailServerHostName"''))
   \<and> (client_config e l d rn pw = Inr (Tostring doc)
      \<and> find (\<lambda>x. domain_name x = d) (domains e) = Some dmn \<longrightarrow>
      (\<exists>s \<in> set (servers dmn). server_type s = ''imap'')
      \<and> (\<exists>s \<in> set (servers dmn). server_type s = ''smtp''))\<close>
proof (intro conjI impI)
  assume "fill_reached e l d dmn lr \<and> (\<forall>s \<in> set (servers dmn). valid_server s)
      \<and> (\<forall>s \<in> set (servers dmn). server_type s \<noteq> ''imap'')"
  then show \<open>client_config e l d rn pw
        = Inl (TypeError ''Missing value for payload key "IncomingMailServerHostName"'')\<close>
    using client_config_incoming_missing [of e l d dmn lr rn pw] by (simp add: missing_value_def)
next
  assume "fill_reached e l d dmn lr \<and> (\<forall>s \<in> set (servers dmn). valid_server s)
      \<and> (\<exists>s \<in> set (servers dmn). server_type s = ''imap'')
      \<and> (\<forall>s \<in> set (servers dmn). server_type s \<noteq> ''smtp'')"
  then show \<open>client_config e l d rn pw
        = Inl (TypeError ''Missing value for payload key "OutgoingMailServerHostName"'')\<close>
    using client_config_outgoing_missing [of e l d dmn lr rn pw] by (simp add: missing_value_def)
next
  assume a: "client_config e l d rn pw = Inr (Tostring doc)
      \<and> find (\<lambda>x. domain_name x = d) (domains e) = Some dmn"
  then obtain lr where r: "fill_reached e l d dmn lr"
    and v: "\<forall>s \<in> set (servers dmn). valid_server s"
    using client_config_success_valid by blast
  show "\<exists>s \<in> set (servers dmn). server_type s = ''imap''"
  proof (rule ccontr)
    assume "\<not> (\<exists>s \<in> set (servers dmn). server_type s = ''imap'')"
    then have "\<forall>s \<in> set (servers dmn). server_type s \<noteq> ''imap''"
      by blast
    with r v have "client_config e l d rn pw = Inl (missing_value ''IncomingMailServerHostName'')"
      by (rule client_config_incoming_missing)
    with a show False by simp
  qed
  then have i: "\<exists>s \<in> set (servers dmn). server_type s = ''imap''" .
  show "\<exists>s \<in> set (servers dmn). server_type s = ''smtp''"
  proof (rule ccontr)
    assume "\<not> (\<exists>s \<in> set (servers dmn). server_type s = ''smtp'')"
    then have "\<forall>s \<in> set (servers dmn). server_type s \<noteq> ''smtp''"
      by blast
    with r v i have "client_config e l d rn pw
        = Inl (missing_value ''OutgoingMailServerHostName'')"
      by (rule client_config_outgoing_missing)
    with a show False by simp
  qed
qed

lemma example_reached_uncovered:
  "fill_reached example_env ''alice'' ''imaponly.example''
     \<lparr>domain_name = ''imaponly.example'', provider = Some example_provider,
      servers = [imap_server], ldapserver = None\<rparr> None"
  "fill_reached example_env ''alice'' ''smtponly.example''
     \<lparr>domain_name = ''smtponly.example'', provider = Some example_provider,
      servers = [smtp_server], ldapserver = None\<rparr> None"
  "find (\<lambda>x. domain_name x = ''example.com'') (domains example_env)
     = Some \<lparr>domain_name = ''example.com'', provider = Some example_provider,
             servers = [imap_server, smtp_server], ldapserver = None\<rparr>"
  by (simp_all add: fill_reached_def example_env_def example_domains_def)

theorem client_config_uncovered_direction_witness:
  \<open>client_config example_env ''alice'' ''smtponly.example'' ''Alice A.'' ''pw''
     = Inl (TypeError ''Missing value for payload key "IncomingMailServerHostName"'')
   \<and> client_config example_env ''alice'' ''imaponly.example'' ''Alice A.'' ''pw''
     = Inl (TypeError ''Missing value for payload key "OutgoingMailServerHostName"'')
   \<and> (\<exists>s \<in> set [imap_server, smtp_server]. server_type s = ''imap'')
   \<and> (\<exists>s \<in> set [imap_server, smtp_server]. server_type s = ''smtp'')\<close>
proof -
  from example_documents(1) obtain doc where
    doc: "client_config example_env ''alice'' ''example.com'' ''Alice A.'' ''pw''
            = Inr (Tostring doc)"
    by blast
  show ?thesis
    using doc example_reached_uncovered
      client_config_uncovered_direction [where e = example_env and l = "''alice''"
        and d = "''smtponly.example''" and lr = None and rn = "''Alice A.''" and pw = "''pw''"
        and dmn = "\<lparr>domain_name = ''smtponly.example'', provider = Some example_provider,
                     servers = [smtp_server], ldapserver = None\<rparr>"]
      client_config_uncovered_direction [where e = example_env and l = "''alice''"
        and d = "''imaponly.example''" and lr = None and rn = "''Alice A.''" and pw = "''pw''"
        and dmn = "\<lparr>domain_name = ''imaponly.example'', provider = Some example_provider,
                     servers = [imap_server], ldapserver = None\<rparr>"]
      client_config_uncovered_direction [where e = example_env and l = "''alice''"
        and d = "''example.com''" and rn = "''Alice A.''" and pw = "''pw''" and doc = doc
        and dmn = "\<lparr>domain_name = ''example.com'', provider = Some example_provider,
                     servers = [imap_server, smtp_server], ldapserver = None\<rparr>"]
    by (simp add: valid_server_def imap_server_def smtp_server_def)
qed

text \<open>
  C10 as stated fails for a domain whose only server is rejected by the loop: the
  domain has no \<^verbatim>\<open>imap\<close> server and no directory server, and the error is that of the
  server's authentication kind, raised before the tree is sanitised.
\<close>

theorem client_config_uncovered_direction_counterexample:
  \<open>servers \<lparr>domain_name = ''relay.example'', provider = Some example_provider,
            servers = [digest_server], ldapserver = None\<rparr> = [digest_server]
   \<and> server_type digest_server \<noteq> ''imap''
   \<and> client_config example_env ''alice'' ''relay.example'' ''Alice A.'' ''pw''
       = Inl (InvalidAuthenticationType ''Invalid authentication type "digest"'')\<close>
  by (simp add: example_defs config_defs)

end
